theory Spec2Isabelle
  imports Complex_Main "HOL-Library.Sublist" "HOL-Library.Signed_Division"
begin

section \<open>Go values shared by the packages\<close>

text \<open>
  Go strings are byte sequences; they are modelled as \<open>string\<close> (a list of 8-bit
  characters).  A \<open>time.Duration\<close> is a signed 64-bit count of nanoseconds; it is
  modelled as an \<open>int\<close>, and every duration computed below stays far inside the
  64-bit range.
\<close>

type_synonym duration = int

definition Nanosecond :: duration where "Nanosecond = 1"
definition Second :: duration where "Second = 1000000000 * Nanosecond"
definition Hour :: duration where "Hour = 3600 * Second"

subsection \<open>float64 arithmetic\<close>

text \<open>
  A finite float64 is a rational number.  \<open>fl\<close> rounds a rational to the nearest
  float64 (53-bit significand, ties to even), which is what each float64 operation of
  Go does to its exact result.  Overflow and subnormal numbers do not occur for the
  magnitudes the program computes (between \<open>2^-42\<close> and \<open>2^63\<close>) and are not
  modelled.  \<open>bits n\<close> is the length of the binary numeral of \<open>n\<close>, \<open>expo x\<close> the
  exponent \<open>e\<close> with \<open>2^e \<le> |x| < 2^(e+1)\<close>.
\<close>

function bits :: "int \<Rightarrow> nat" where
  "bits n = (if n \<le> 0 then 0 else Suc (bits (n div 2)))"
  by pat_completeness auto
termination
  by (relation "measure nat") auto

declare bits.simps [simp del]

definition expo :: "rat \<Rightarrow> int" where
  "expo x =
     (let (p, q) = quotient_of \<bar>x\<bar>;
          e = int (bits p) - int (bits q)
      in if 2 powi e \<le> \<bar>x\<bar> then e else e - 1)"

definition round_even :: "rat \<Rightarrow> int" where
  "round_even x =
     (let f = \<lfloor>x\<rfloor>; r = x - of_int f
      in if r < 1 / 2 then f
         else if 1 / 2 < r then f + 1
         else if even f then f else f + 1)"

definition fl :: "rat \<Rightarrow> rat" where
  "fl x =
     (if x = 0 then 0
      else let s = 2 powi (expo x - 52) in of_int (round_even (x / s)) * s)"

text \<open>\<open>float64(n)\<close> for an integer \<open>n\<close>, and \<open>int(f)\<close> for a float64 \<open>f\<close> inside the
  64-bit range: the conversion drops the fraction (truncation towards zero).\<close>

definition float64 :: "int \<Rightarrow> rat" where
  "float64 n = fl (of_int n)"

definition int_of_float64 :: "rat \<Rightarrow> int" where
  "int_of_float64 f = (if 0 \<le> f then \<lfloor>f\<rfloor> else \<lceil>f\<rceil>)"

section \<open>The Go library functions the program calls\<close>

subsection \<open>Package strings\<close>

text \<open>
  The functions of package \<open>strings\<close> are modelled on bytes.  On ASCII text, one
  character per byte, they are the functions of Go; on other text Go works on UTF-8
  sequences (\<open>ToLower\<close> also lowers non-ASCII letters, \<open>TrimSpace\<close> also trims
  non-ASCII white space), which is not modelled.
\<close>

definition lower_char :: "char \<Rightarrow> char" where
  "lower_char c =
     (let n = (of_char c :: nat) in if 65 \<le> n \<and> n \<le> 90 then char_of (n + 32) else c)"

definition ToLower :: "string \<Rightarrow> string" where
  "ToLower s = map lower_char s"

fun Contains :: "string \<Rightarrow> string \<Rightarrow> bool" where
  "Contains [] sub = (sub = [])"
| "Contains (c # s) sub = (prefix sub (c # s) \<or> Contains s sub)"

fun Join :: "string list \<Rightarrow> string \<Rightarrow> string" where
  "Join [] sep = []"
| "Join [x] sep = x"
| "Join (x # y # r) sep = x @ sep @ Join (y # r) sep"

text \<open>\<open>strings.Split\<close> with a separator of one byte.\<close>

fun Split :: "string \<Rightarrow> char \<Rightarrow> string list" where
  "Split [] sep = [[]]"
| "Split (c # s) sep =
     (if c = sep then [] # Split s sep
      else (case Split s sep of [] \<Rightarrow> [[c]] | h # t \<Rightarrow> (c # h) # t))"

definition TrimPrefix :: "string \<Rightarrow> string \<Rightarrow> string" where
  "TrimPrefix s p = (if prefix p s then drop (length p) s else s)"

definition TrimSuffix :: "string \<Rightarrow> string \<Rightarrow> string" where
  "TrimSuffix s p = (if suffix p s then take (length s - length p) s else s)"

definition is_space :: "char \<Rightarrow> bool" where
  "is_space c = (of_char c \<in> {9, 10, 11, 12, 13, 32 :: nat})"

definition TrimSpace :: "string \<Rightarrow> string" where
  "TrimSpace s = rev (dropWhile is_space (rev (dropWhile is_space s)))"

text \<open>\<open>strings.ReplaceAll\<close>: the non-overlapping occurrences of \<open>old\<close>, from the left.\<close>

function ReplaceAll :: "string \<Rightarrow> string \<Rightarrow> string \<Rightarrow> string" where
  "ReplaceAll s old new =
     (if old = [] then new @ concat (map (\<lambda>c. c # new) s)
      else if s = [] then []
      else if prefix old s then new @ ReplaceAll (drop (length old) s) old new
      else hd s # ReplaceAll (tl s) old new)"
  by pat_completeness auto
termination
  by (relation "measure (\<lambda>(s, old, new). length s)") auto

declare ReplaceAll.simps [simp del]

text \<open>
  \<open>strconv.Atoi\<close> on a string of decimal digits (the only strings the program passes):
  the value, or a range error beyond the 64-bit \<open>int\<close>, in which case the value
  returned with the error is the largest \<open>int\<close>.
\<close>

definition digit_val :: "char \<Rightarrow> int" where
  "digit_val c = int (of_char c) - 48"

definition is_digit :: "char \<Rightarrow> bool" where
  "is_digit c = (48 \<le> (of_char c :: nat) \<and> (of_char c :: nat) \<le> 57)"

definition maxInt :: int where "maxInt = 2 ^ 63 - 1"

definition decimal :: "string \<Rightarrow> int" where
  "decimal s = foldl (\<lambda>n c. 10 * n + digit_val c) 0 s"

datatype atoi_error = ErrSyntax | ErrRange

definition Atoi :: "string \<Rightarrow> int \<times> atoi_error option" where
  "Atoi s =
     (if s = [] \<or> \<not> list_all is_digit s then (0, Some ErrSyntax)
      else if maxInt < decimal s then (maxInt, Some ErrRange)
      else (decimal s, None))"

subsection \<open>Package regexp\<close>

text \<open>
  The regular expressions of the program use literals, character classes, greedy
  \<open>*\<close>, \<open>+\<close> and \<open>?\<close> on a class, the lazy \<open>.*?\<close>, concatenation and capture groups
  that are neither nested nor repeated; \<open>rx\<close> has exactly these.  \<open>run r (caps, s)\<close> is
  the list of the ways \<open>r\<close> matches a prefix of \<open>s\<close>, in the order in which a backtracking
  matcher tries them: each with the captures closed so far and the rest of the input.
  Go's \<open>regexp\<close> returns the match that a backtracking matcher finds first
  (leftmost-first), which is the head of that list at the leftmost position where
  the list is not empty.  The matcher works on bytes, which is Go's matching on ASCII
  text; on other text Go matches UTF-8 sequences, and its flag \<open>i\<close> folds two
  non-ASCII letters onto \<open>k\<close> and \<open>s\<close>, which is not modelled.
\<close>

datatype cls =
    Chr char
  | Rng char char
  | Space
  | Digit
  | Word

definition in_range :: "char \<Rightarrow> char \<Rightarrow> char \<Rightarrow> bool" where
  "in_range c lo hi = ((of_char lo :: nat) \<le> of_char c \<and> (of_char c :: nat) \<le> of_char hi)"

fun in_cls :: "char \<Rightarrow> cls \<Rightarrow> bool" where
  "in_cls c (Chr d) = (c = d)"
| "in_cls c (Rng lo hi) = in_range c lo hi"
| "in_cls c Space = (of_char c \<in> {9, 10, 12, 13, 32 :: nat})"
| "in_cls c Digit = is_digit c"
| "in_cls c Word =
     (is_digit c \<or> in_range c CHR ''A'' CHR ''Z'' \<or> in_range c CHR ''a'' CHR ''z''
      \<or> c = CHR ''_'')"

text \<open>A bracket expression \<open>[...]\<close> or \<open>[^...]\<close>; \<open>.\<close> is \<open>[^\n]\<close> without the flag \<open>s\<close>.\<close>

datatype cset = In "cls list" | NotIn "cls list"

fun in_cset :: "cset \<Rightarrow> char \<Rightarrow> bool" where
  "in_cset (In cs) c = list_ex (in_cls c) cs"
| "in_cset (NotIn cs) c = (\<not> list_ex (in_cls c) cs)"

definition Dot :: cset where
  "Dot = NotIn [Chr CHR 0x0A]"

text \<open>The classes \<open>\s\<close> and \<open>\d\<close>.\<close>

definition ws :: cset where
  "ws = In [Space]"

definition digit :: cset where
  "digit = In [Digit]"

datatype rx =
    Eps
  | Lit string
  | LitCI string
  | One cset
  | Star cset
  | Plus cset
  | Opt cset
  | LazyStar cset
  | Grp rx
  | Seq rx rx

fun cat :: "rx list \<Rightarrow> rx" where
  "cat [] = Eps"
| "cat [r] = r"
| "cat (r # rs) = Seq r (cat rs)"

type_synonym mstate = "string list \<times> string"

fun run :: "rx \<Rightarrow> mstate \<Rightarrow> mstate list" where
  "run Eps st = [st]"
| "run (Lit l) (caps, s) = (if prefix l s then [(caps, drop (length l) s)] else [])"
| "run (LitCI l) (caps, s) =
     (if length l \<le> length s \<and> ToLower (take (length l) s) = ToLower l
      then [(caps, drop (length l) s)] else [])"
| "run (One k) (caps, s) =
     (case s of [] \<Rightarrow> [] | c # t \<Rightarrow> if in_cset k c then [(caps, t)] else [])"
| "run (Star k) (caps, s) =
     map (\<lambda>n. (caps, drop n s)) (rev [0 ..< Suc (length (takeWhile (in_cset k) s))])"
| "run (Plus k) (caps, s) =
     map (\<lambda>n. (caps, drop n s)) (rev [1 ..< Suc (length (takeWhile (in_cset k) s))])"
| "run (Opt k) (caps, s) =
     (case s of [] \<Rightarrow> [(caps, s)]
      | c # t \<Rightarrow> if in_cset k c then [(caps, t), (caps, s)] else [(caps, s)])"
| "run (LazyStar k) (caps, s) =
     map (\<lambda>n. (caps, drop n s)) [0 ..< Suc (length (takeWhile (in_cset k) s))]"
| "run (Grp r) (caps, s) =
     map (\<lambda>(caps', s'). (caps' @ [take (length s - length s') s], s')) (run r (caps, s))"
| "run (Seq a b) st = concat (map (run b) (run a st))"

text \<open>
  \<open>FindStringSubmatch\<close>: the leftmost match, as the whole match followed by the
  captures, or nil (here \<open>[]\<close>) when there is none.
\<close>

fun FindStringSubmatch :: "rx \<Rightarrow> string \<Rightarrow> string list" where
  "FindStringSubmatch r [] =
     (case run r ([], []) of [] \<Rightarrow> [] | (caps, rest) # _ \<Rightarrow> [] # caps)"
| "FindStringSubmatch r (c # s) =
     (case run r ([], c # s) of
        [] \<Rightarrow> FindStringSubmatch r s
      | (caps, rest) # _ \<Rightarrow> take (length (c # s) - length rest) (c # s) # caps)"

text \<open>
  A replacement template is a list of literal pieces and group references
  (\<open>${1}\<close>); a reference to a group that does not exist expands to nothing.
\<close>

datatype tpiece = TLit string | TGroup nat

fun expand :: "tpiece list \<Rightarrow> string list \<Rightarrow> string" where
  "expand [] caps = []"
| "expand (TLit l # t) caps = l @ expand t caps"
| "expand (TGroup n # t) caps =
     (if 0 < n \<and> n \<le> length caps then caps ! (n - 1) else []) @ expand t caps"

text \<open>
  \<open>ReplaceAllString\<close>: the matches are found from the left, the search resuming at
  the end of each match; an empty match right after a match is not replaced, and the
  search then moves on by one character.  \<open>after\<close> tells that a match ended at the
  current position.
\<close>

function replace_from :: "rx \<Rightarrow> tpiece list \<Rightarrow> bool \<Rightarrow> string \<Rightarrow> string" where
  "replace_from r t after s =
     (case run r ([], s) of
        (caps, rest) # _ \<Rightarrow>
          if length rest < length s then expand t caps @ replace_from r t True rest
          else (if after then [] else expand t caps) @
               (case s of [] \<Rightarrow> [] | c # s' \<Rightarrow> c # replace_from r t False s')
      | [] \<Rightarrow> (case s of [] \<Rightarrow> [] | c # s' \<Rightarrow> c # replace_from r t False s'))"
  by pat_completeness auto
termination
  by (relation "measure (\<lambda>(r, t, after, s). length s)") auto

declare replace_from.simps [simp del]

definition ReplaceAllString :: "rx \<Rightarrow> string \<Rightarrow> tpiece list \<Rightarrow> string" where
  "ReplaceAllString r s t = replace_from r t False s"

section \<open>Delivery client (package transport)\<close>

definition maxRetries :: nat where "maxRetries = 5"
definition initialDelay :: duration where "initialDelay = 1 * Second"
definition maxDelay :: duration where "maxDelay = 60 * Second"
definition backoffMultiplier :: rat where "backoffMultiplier = 2"
definition requestTimeout :: duration where "requestTimeout = 30 * Second"

record Client =
  url :: string
  apiKey :: string
  timeout :: duration

datatype panic = IndexOutOfRange int nat

text \<open>
  \<open>NewClient\<close> reads \<open>url[len(url)-1]\<close> before anything else; on the empty string that
  is index \<open>-1\<close> of a string of length \<open>0\<close>, a run-time panic.
\<close>

definition NewClient :: "string \<Rightarrow> string \<Rightarrow> panic + Client" where
  "NewClient u k =
     (if u = [] then Inl (IndexOutOfRange (- 1) 0)
      else Inr \<lparr> url = (if last u \<noteq> CHR ''/'' then u @ ''/'' else u),
                 apiKey = k,
                 timeout = requestTimeout \<rparr>)"

text \<open>
  The errors \<open>Send\<close> and \<open>sendRequest\<close> can return.  \<open>HTTPError\<close> is the struct of
  the source (status code, status line, body); the other three are the
  \<open>fmt.Errorf\<close> wrappers of \<open>sendRequest\<close>; \<open>SendFailedAfter n e\<close> is
  \<open>fmt.Errorf("failed to send after %d attempts: %w", n, e)\<close>, where \<open>e\<close> may be nil.
\<close>

datatype send_error =
    MarshalFailed
  | CreateRequestFailed
  | RequestFailed
  | HTTPError int string string
  | SendFailedAfter nat "send_error option"

text \<open>
  What one call of \<open>sendRequest\<close> meets: the payload does not marshal, the request
  cannot be built, the HTTP exchange fails, or a response arrives (status code, status
  line, body).
\<close>

datatype exchange =
    NoMarshal
  | NoRequest
  | NoResponse
  | Response int string string

fun sendRequest :: "exchange \<Rightarrow> send_error option" where
  "sendRequest NoMarshal = Some MarshalFailed"
| "sendRequest NoRequest = Some CreateRequestFailed"
| "sendRequest NoResponse = Some RequestFailed"
| "sendRequest (Response code status body) =
     (if code < 200 \<or> 300 \<le> code then Some (HTTPError code status body) else None)"

definition calculateBackoff :: "int \<Rightarrow> duration" where
  "calculateBackoff attempt =
     (let delay = fl (fl (float64 initialDelay * backoffMultiplier) * float64 attempt);
          delay' = (if float64 maxDelay < delay then float64 maxDelay else delay)
      in int_of_float64 delay')"

text \<open>The type assertion \<open>err.(*HTTPError)\<close> followed by the test of the status code.\<close>

fun is_auth_error :: "send_error \<Rightarrow> bool" where
  "is_auth_error (HTTPError code status body) = (code = 401 \<or> code = 403)"
| "is_auth_error _ = False"

text \<open>
  \<open>Send\<close> is run against an environment \<open>env\<close> that tells what the \<open>i\<close>-th call of
  \<open>sendRequest\<close> (counted from 0) meets.  Its effects are recorded as a trace of
  events: each \<open>time.Sleep\<close> with its duration and each call of \<open>sendRequest\<close>.
  The log lines are not modelled.  \<open>send_loop\<close> is the \<open>for\<close> loop, with the loop
  variable \<open>attempt\<close>, the variable \<open>lastErr\<close> and the trace so far.
\<close>

datatype event = Sleep duration | Request

function send_loop ::
  "(nat \<Rightarrow> exchange) \<Rightarrow> nat \<Rightarrow> send_error option \<Rightarrow> event list
     \<Rightarrow> send_error option \<times> event list" where
  "send_loop env attempt lastErr tr =
     (if attempt < maxRetries then
        let tr1 = (if 0 < attempt then tr @ [Sleep (calculateBackoff (int attempt))] else tr);
            tr2 = tr1 @ [Request]
        in case sendRequest (env attempt) of
             None \<Rightarrow> (None, tr2)
           | Some err \<Rightarrow>
               if is_auth_error err then (Some err, tr2)
               else send_loop env (attempt + 1) (Some err) tr2
      else (Some (SendFailedAfter maxRetries lastErr), tr))"
  by pat_completeness auto
termination
  by (relation "measure (\<lambda>(env, attempt, lastErr, tr). maxRetries - attempt)") auto

declare send_loop.simps [simp del]

definition Send :: "(nat \<Rightarrow> exchange) \<Rightarrow> send_error option \<times> event list" where
  "Send env = send_loop env 0 None []"

definition attempts :: "event list \<Rightarrow> nat" where
  "attempts tr = length (filter (\<lambda>e. e = Request) tr)"

text \<open>
  The retry policy in the words of the specification: before attempt \<open>k\<close> (counted
  from 1, \<open>k > 1\<close>) the client waits \<open>min(maxDelay, initialDelay * 2.0 * (k-1))\<close>.
  \<open>schedule a m\<close> is the trace of the attempts \<open>a+1\<close> to \<open>m\<close> under that policy.
\<close>

definition policy_delay :: "nat \<Rightarrow> duration" where
  "policy_delay k = min (60 * Second) (1 * Second * 2 * (int k - 1))"

fun schedule :: "nat \<Rightarrow> nat \<Rightarrow> event list" where
  "schedule a 0 = []"
| "schedule a (Suc m) =
     (if a \<le> m then schedule a m @ (if 0 < m then [Sleep (policy_delay (Suc m))] else []) @ [Request]
      else [])"

definition retryable :: "exchange \<Rightarrow> bool" where
  "retryable x = (case sendRequest x of None \<Rightarrow> False | Some err \<Rightarrow> \<not> is_auth_error err)"
section \<open>Log sampler and redaction (package logs)\<close>

record LogEntry =
  Path :: string
  Message :: string
  Lines :: nat
  Level :: string

text \<open>
  The classes and the pieces the patterns of \<open>sanitize\<close> share: \<open>[=:]\<close>,
  \<open>[^\s"']\<close>, \<open>[^"]\<close>, \<open>[_-]\<close> and the class \<open>[A-Za-z0-9_-]\<close> of the JWT pattern.
\<close>

definition eq_colon :: cset where
  "eq_colon = In [Chr CHR ''='', Chr CHR '':'']"

definition bare_value :: cset where
  "bare_value = NotIn [Space, Chr CHR 0x22, Chr CHR 0x27]"

definition not_dquote :: cset where
  "not_dquote = NotIn [Chr CHR 0x22]"

definition dquote :: rx where
  "dquote = Lit [CHR 0x22]"

definition b64url :: cset where
  "b64url = In [Rng CHR ''A'' CHR ''Z'', Rng CHR ''a'' CHR ''z'', Rng CHR ''0'' CHR ''9'',
     Chr CHR ''_'', Chr CHR ''-'']"

definition redacted :: "tpiece list" where
  "redacted = [TGroup 1, TLit ''***REDACTED***'']"

text \<open>
  The table \<open>patterns\<close> of \<open>sanitize\<close>, in the order of the source.  Each entry is the
  regular expression and the replacement template; the source's regular expression is
  quoted before each entry.  Under the flag \<open>i\<close> a literal is \<open>LitCI\<close>; the classes of
  these patterns hold no letter, or hold both cases already.
\<close>

definition patterns :: "(rx \<times> tpiece list) list" where
  \<open>patterns = [
     \<comment> \<open>\<^verbatim>\<open>(?i)(password\s*[=:]\s*)([^\s"']+)\<close>\<close>
     (cat [Grp (cat [LitCI ''password'', Star ws, One eq_colon, Star ws]), Grp (Plus bare_value)],
      redacted),
     \<comment> \<open>\<^verbatim>\<open>(?i)("password"\s*:\s*")[^"]+\<close>\<close>
     (cat [Grp (cat [dquote, LitCI ''password'', dquote, Star ws, Lit '':'', Star ws, dquote]),
           Plus not_dquote],
      redacted),
     \<comment> \<open>\<^verbatim>\<open>(?i)(api[_-]?key\s*[=:]\s*)([^\s"']+)\<close>\<close>
     (cat [Grp (cat [LitCI ''api'', Opt (In [Chr CHR ''_'', Chr CHR ''-'']), LitCI ''key'',
                     Star ws, One eq_colon, Star ws]),
           Grp (Plus bare_value)],
      redacted),
     \<comment> \<open>\<^verbatim>\<open>(?i)("api[_-]?key"\s*:\s*")[^"]+\<close>\<close>
     (cat [Grp (cat [dquote, LitCI ''api'', Opt (In [Chr CHR ''_'', Chr CHR ''-'']), LitCI ''key'',
                     dquote, Star ws, Lit '':'', Star ws, dquote]),
           Plus not_dquote],
      redacted),
     \<comment> \<open>\<^verbatim>\<open>(?i)(secret\s*[=:]\s*)([^\s"']+)\<close>\<close>
     (cat [Grp (cat [LitCI ''secret'', Star ws, One eq_colon, Star ws]), Grp (Plus bare_value)],
      redacted),
     \<comment> \<open>\<^verbatim>\<open>(?i)("secret"\s*:\s*")[^"]+\<close>\<close>
     (cat [Grp (cat [dquote, LitCI ''secret'', dquote, Star ws, Lit '':'', Star ws, dquote]),
           Plus not_dquote],
      redacted),
     \<comment> \<open>\<^verbatim>\<open>(?i)(token\s*[=:]\s*)([^\s"']+)\<close>\<close>
     (cat [Grp (cat [LitCI ''token'', Star ws, One eq_colon, Star ws]), Grp (Plus bare_value)],
      redacted),
     \<comment> \<open>\<^verbatim>\<open>(?i)(bearer\s+)([A-Za-z0-9\-._~+/]+)\<close>\<close>
     (cat [Grp (cat [LitCI ''bearer'', Plus ws]),
           Grp (Plus (In [Rng CHR ''A'' CHR ''Z'', Rng CHR ''a'' CHR ''z'', Rng CHR ''0'' CHR ''9'',
                          Chr CHR ''-'', Chr CHR ''.'', Chr CHR ''_'', Chr CHR ''~'',
                          Chr CHR ''+'', Chr CHR ''/'']))],
      redacted),
     \<comment> \<open>\<^verbatim>\<open>(eyJ[A-Za-z0-9_-]+\.eyJ[A-Za-z0-9_-]+\.[A-Za-z0-9_-]+)\<close>\<close>
     (Grp (cat [Lit ''eyJ'', Plus b64url, Lit ''.'', Lit ''eyJ'', Plus b64url, Lit ''.'',
                Plus b64url]),
      [TLit ''***JWT_TOKEN_REDACTED***'']),
     \<comment> \<open>\<^verbatim>\<open>(?s)-----BEGIN[^\n]+\n[^-]+\n-----END[^\n]+-----\<close>\<close>
     (cat [Lit ''-----BEGIN'', Plus (NotIn [Chr CHR 0x0A]), Lit [CHR 0x0A],
           Plus (NotIn [Chr CHR ''-'']), Lit [CHR 0x0A],
           Lit ''-----END'', Plus (NotIn [Chr CHR 0x0A]), Lit ''-----''],
      [TLit ''***PRIVATE_KEY_REDACTED***'']),
     \<comment> \<open>\<^verbatim>\<open>AKIA[0-9A-Z]{16}\<close>\<close>
     (cat (Lit ''AKIA'' # replicate 16 (One (In [Rng CHR ''0'' CHR ''9'', Rng CHR ''A'' CHR ''Z'']))),
      [TLit ''***AWS_KEY_REDACTED***''])
   ]\<close>

definition sanitize :: "string \<Rightarrow> string" where
  "sanitize content =
     (let s = foldl (\<lambda>s (pattern, replace). ReplaceAllString pattern s replace) content patterns;
          s = ReplaceAll s ''password'' ''***'';
          s = ReplaceAll s ''secret'' ''***''
      in s)"

definition detectLogLevel :: "string \<Rightarrow> string" where
  "detectLogLevel content =
     (let contentLower = ToLower content in
      if Contains contentLower ''critical'' \<or> Contains contentLower ''panic''
         \<or> Contains contentLower ''fatal'' then ''critical''
      else if Contains contentLower ''error'' \<or> Contains contentLower ''err''
         \<or> Contains contentLower ''exception'' then ''error''
      else if Contains contentLower ''warn'' \<or> Contains contentLower ''warning'' then ''warn''
      else if Contains contentLower ''info'' \<or> Contains contentLower ''information'' then ''info''
      else [])"

text \<open>
  The file system as the sampler sees it.  Opening a path fails or gives a file; the
  file's \<open>Stat\<close> fails or gives its size; running a \<open>bufio.Scanner\<close> over the file to
  its end gives the lines it returned and the error it stopped with, if any (a read
  error, or a line longer than the scanner's buffer).
\<close>

datatype os_error = OsError string

record log_file =
  stat :: "os_error + int"
  scanned :: "string list \<times> os_error option"

type_synonym filesystem = "string \<Rightarrow> os_error + log_file"

definition readLastLinesSimple :: "log_file \<Rightarrow> nat \<Rightarrow> string list" where
  "readLastLinesSimple f maxLines =
     (let allLines = fst (scanned f) in
      if length allLines \<le> maxLines then allLines
      else drop (length allLines - maxLines) allLines)"

text \<open>
  \<open>readLogFile\<close> returns \<open>(nil, err)\<close>, \<open>(nil, nil)\<close> or \<open>(entry, nil)\<close>: here
  \<open>Inl err\<close>, \<open>Inr None\<close> and \<open>Inr (Some entry)\<close>.  Its only caller passes a positive
  \<open>maxLines\<close>, so the parameter is a natural number.
\<close>

definition readLogFile :: "filesystem \<Rightarrow> string \<Rightarrow> nat \<Rightarrow> os_error + LogEntry option" where
  "readLogFile fs path maxLines =
     (case fs path of
        Inl err \<Rightarrow> Inl err
      | Inr f \<Rightarrow>
         (case stat f of
            Inl err \<Rightarrow> Inl err
          | Inr sz \<Rightarrow>
             (let r = (if sz < 1024 * 1024 then
                         (case scanned f of
                            (lines, Some err) \<Rightarrow> Inl err
                          | (lines, None) \<Rightarrow>
                              Inr (if maxLines < length lines
                                   then drop (length lines - maxLines) lines else lines))
                       else Inr (readLastLinesSimple f maxLines))
              in case r of
                   Inl err \<Rightarrow> Inl err
                 | Inr lines \<Rightarrow>
                     if length lines = 0 then Inr None
                     else let content = Join lines [CHR 0x0A];
                              sanitized = sanitize content;
                              level = detectLogLevel content
                          in Inr (Some \<lparr> Path = path, Message = sanitized,
                                         Lines = length lines, Level = level \<rparr>))))"

text \<open>The loop of \<open>ReadAndSanitize\<close> over the paths, with the entries collected so far.\<close>

fun read_paths :: "filesystem \<Rightarrow> nat \<Rightarrow> string list \<Rightarrow> LogEntry list \<Rightarrow> LogEntry list" where
  "read_paths fs maxLines [] entries = entries"
| "read_paths fs maxLines (path # paths) entries =
     (if path = [] then read_paths fs maxLines paths entries
      else case readLogFile fs path maxLines of
             Inl err \<Rightarrow> read_paths fs maxLines paths entries
           | Inr None \<Rightarrow> read_paths fs maxLines paths entries
           | Inr (Some logEntry) \<Rightarrow> read_paths fs maxLines paths (entries @ [logEntry]))"

definition ReadAndSanitize ::
  "filesystem \<Rightarrow> string list \<Rightarrow> int \<Rightarrow> LogEntry list \<times> os_error option" where
  "ReadAndSanitize fs paths maxLines =
     (if length paths = 0 then ([], None)
      else let maxLines' = (if maxLines \<le> 0 then 100 else maxLines)
           in (read_paths fs (nat maxLines') paths [], None))"

text \<open>
  Severity classification in the words of the specification: the keyword families are
  tried in their order of priority on the lower-cased content, the first family with a
  keyword that occurs in it gives the severity, and without a match the severity is
  empty.  \<open>claimed_families\<close> are the families the specification lists.
\<close>

fun classify :: "(string list \<times> string) list \<Rightarrow> string \<Rightarrow> string" where
  "classify [] content = []"
| "classify ((keywords, severity) # families) content =
     (if list_ex (Contains (ToLower content)) keywords then severity
      else classify families content)"

definition claimed_families :: "(string list \<times> string) list" where
  "claimed_families =
     [([''critical'', ''panic'', ''fatal''], ''critical''),
      ([''error'', ''exception''], ''error''),
      ([''warn''], ''warn''),
      ([''info''], ''info'')]"

definition scanned_families :: "(string list \<times> string) list" where
  "scanned_families =
     [([''critical'', ''panic'', ''fatal''], ''critical''),
      ([''error'', ''err'', ''exception''], ''error''),
      ([''warn''], ''warn''),
      ([''info''], ''info'')]"

text \<open>
  A small file system to run the sampler on: one log of two lines, one empty log, and
  no other file.
\<close>

definition example_fs :: filesystem where
  "example_fs path =
     (if path = ''/var/log/app.log''
      then Inr \<lparr> stat = Inr 17, scanned = ([''started'', ''all good''], None) \<rparr>
      else if path = ''/var/log/empty.log''
      then Inr \<lparr> stat = Inr 0, scanned = ([], None) \<rparr>
      else Inl (OsError ''no such file or directory''))"

section \<open>Service classifier (package services)\<close>

text \<open>
  External commands are run through an environment: \<open>exec argv\<close> is the standard
  output of the command when it ran and exited with status 0 (\<open>err == nil\<close>), and
  \<open>None\<close> otherwise.
\<close>

type_synonym exec_env = "string list \<Rightarrow> string option"

definition ServiceTypeDocker :: string where "ServiceTypeDocker = ''docker''"
definition ServiceTypeNginx :: string where "ServiceTypeNginx = ''nginx''"
definition ServiceTypeApache :: string where "ServiceTypeApache = ''apache''"
definition ServiceTypeMySQL :: string where "ServiceTypeMySQL = ''mysql''"
definition ServiceTypePostgreSQL :: string where "ServiceTypePostgreSQL = ''postgresql''"
definition ServiceTypeRedis :: string where "ServiceTypeRedis = ''redis''"
definition ServiceTypeMongoDB :: string where "ServiceTypeMongoDB = ''mongodb''"
definition ServiceTypeNodeJS :: string where "ServiceTypeNodeJS = ''nodejs''"
definition ServiceTypePython :: string where "ServiceTypePython = ''python''"
definition ServiceTypePHP :: string where "ServiceTypePHP = ''php''"
definition ServiceTypeUnknown :: string where "ServiceTypeUnknown = ''unknown''"

record ServiceInfo =
  svc_Type :: string
  svc_Name :: string
  svc_Version :: string
  svc_IsRunning :: bool
  svc_Port :: int
  svc_ProcessName :: string
  svc_PID :: int

definition detectByProcessName :: "string \<Rightarrow> string" where
  "detectByProcessName processName =
     (if Contains processName ''docker'' \<or> Contains processName ''dockerd''
         \<or> Contains processName ''containerd'' then ServiceTypeDocker
      else if Contains processName ''nginx'' then ServiceTypeNginx
      else if Contains processName ''apache'' \<or> Contains processName ''httpd''
        then ServiceTypeApache
      else if Contains processName ''mysql'' \<or> Contains processName ''mysqld''
        then ServiceTypeMySQL
      else if Contains processName ''postgres'' \<or> Contains processName ''postmaster''
        then ServiceTypePostgreSQL
      else if Contains processName ''redis'' \<or> Contains processName ''redis-server''
        then ServiceTypeRedis
      else if Contains processName ''mongod'' \<or> Contains processName ''mongo''
        then ServiceTypeMongoDB
      else if Contains processName ''node'' \<or> Contains processName ''nodejs''
        then ServiceTypeNodeJS
      else if Contains processName ''python'' \<or> Contains processName ''python3''
        then ServiceTypePython
      else if Contains processName ''php'' \<or> Contains processName ''php-fpm''
        then ServiceTypePHP
      else ServiceTypeUnknown)"

definition detectByPort :: "int \<Rightarrow> string" where
  "detectByPort port =
     (if port \<in> {80, 8080, 8000, 3000, 3001} then ServiceTypeUnknown
      else if port = 443 then ServiceTypeUnknown
      else if port = 3306 then ServiceTypeMySQL
      else if port = 5432 then ServiceTypePostgreSQL
      else if port = 6379 then ServiceTypeRedis
      else if port = 27017 then ServiceTypeMongoDB
      else if port \<in> {2375, 2376} then ServiceTypeDocker
      else ServiceTypeUnknown)"

definition getServiceName :: "string \<Rightarrow> string" where
  "getServiceName serviceType =
     (if serviceType = ServiceTypeDocker then ''Docker''
      else if serviceType = ServiceTypeNginx then ''Nginx''
      else if serviceType = ServiceTypeApache then ''Apache''
      else if serviceType = ServiceTypeMySQL then ''MySQL''
      else if serviceType = ServiceTypePostgreSQL then ''PostgreSQL''
      else if serviceType = ServiceTypeRedis then ''Redis''
      else if serviceType = ServiceTypeMongoDB then ''MongoDB''
      else if serviceType = ServiceTypeNodeJS then ''Node.js''
      else if serviceType = ServiceTypePython then ''Python''
      else if serviceType = ServiceTypePHP then ''PHP''
      else ''Unknown Service'')"

text \<open>The pattern \<^verbatim>\<open>(\d+\.\d+\.\d+)\<close> of \<open>getServiceVersion\<close>.\<close>

definition versionRegex :: rx where
  "versionRegex = Grp (cat [Plus digit, Lit ''.'', Plus digit, Lit ''.'', Plus digit])"

definition version_command :: "string \<Rightarrow> string list option" where
  "version_command serviceType =
     (if serviceType = ServiceTypeDocker then Some [''docker'', ''--version'']
      else if serviceType = ServiceTypeNginx then Some [''nginx'', ''-v'']
      else if serviceType = ServiceTypeApache then Some [''apache2'', ''-v'']
      else if serviceType = ServiceTypeMySQL then Some [''mysql'', ''--version'']
      else if serviceType = ServiceTypePostgreSQL then Some [''psql'', ''--version'']
      else if serviceType = ServiceTypeRedis then Some [''redis-server'', ''--version'']
      else if serviceType = ServiceTypeNodeJS then Some [''node'', ''--version'']
      else if serviceType = ServiceTypePython then Some [''python3'', ''--version'']
      else if serviceType = ServiceTypePHP then Some [''php'', ''--version'']
      else None)"

definition getServiceVersion :: "exec_env \<Rightarrow> string \<Rightarrow> string \<Rightarrow> string" where
  "getServiceVersion exec serviceType processName =
     (case version_command serviceType of
        None \<Rightarrow> []
      | Some cmd \<Rightarrow>
          (case exec cmd of
             None \<Rightarrow> []
           | Some output \<Rightarrow>
               let matches = FindStringSubmatch versionRegex output in
               if 1 < length matches then matches ! 1 else TrimSpace output))"

definition running_command :: "string \<Rightarrow> string list option" where
  "running_command serviceType =
     (if serviceType = ServiceTypeDocker then Some [''docker'', ''info'']
      else if serviceType = ServiceTypeNginx
        then Some [''systemctl'', ''is-active'', ''--quiet'', ''nginx'']
      else if serviceType = ServiceTypeApache
        then Some [''systemctl'', ''is-active'', ''--quiet'', ''apache2'']
      else if serviceType = ServiceTypeMySQL
        then Some [''systemctl'', ''is-active'', ''--quiet'', ''mysql'']
      else if serviceType = ServiceTypePostgreSQL
        then Some [''systemctl'', ''is-active'', ''--quiet'', ''postgresql'']
      else if serviceType = ServiceTypeRedis
        then Some [''systemctl'', ''is-active'', ''--quiet'', ''redis'']
      else None)"

definition checkServiceRunning :: "exec_env \<Rightarrow> string \<Rightarrow> bool" where
  "checkServiceRunning exec serviceType =
     (case running_command serviceType of
        None \<Rightarrow> True
      | Some cmd \<Rightarrow> exec cmd \<noteq> None)"

definition DetectService :: "exec_env \<Rightarrow> string \<Rightarrow> int \<Rightarrow> int \<Rightarrow> ServiceInfo" where
  "DetectService exec processName port pid =
     (let processNameLower = ToLower processName;
          serviceType = detectByProcessName processNameLower;
          serviceType = (if serviceType = ServiceTypeUnknown then detectByPort port
                         else serviceType);
          version = getServiceVersion exec serviceType processName;
          isRunning = checkServiceRunning exec serviceType
      in \<lparr> svc_Type = serviceType, svc_Name = getServiceName serviceType,
           svc_Version = version, svc_IsRunning = isRunning, svc_Port = port,
           svc_ProcessName = processName, svc_PID = pid \<rparr>)"

section \<open>Discovery parser (package network, ports)\<close>

record PortInfo =
  Protocol :: string
  Port :: int
  Process :: string
  PID :: int
  ServiceType :: string
  ServiceName :: string

fun shouldMonitorPort :: "int \<Rightarrow> int list \<Rightarrow> bool" where
  "shouldMonitorPort port portsToMonitor =
     (if length portsToMonitor = 0 then True
      else list_ex (\<lambda>p. p = port) portsToMonitor)"

text \<open>
  The two patterns of \<open>parseSSOutput\<close>:
  \<^verbatim>\<open>LISTEN\s+\d+\s+\d+\s+.*?:(\d+)\s+.*?\s+users:\(\("([^"]+)",pid=(\d+),\<close> and
  \<^verbatim>\<open>LISTEN\s+\d+\s+\d+\s+.*?:(\d+)\s+\<close>; and the pattern of \<open>parseNetstatOutput\<close>:
  \<^verbatim>\<open>(\w+)\s+\d+\s+\d+\s+.*?:(\d+)\s+.*?\s+(\d+)/(\w+)\<close>.
\<close>

definition ssPattern :: rx where
  "ssPattern =
     cat [Lit ''LISTEN'', Plus ws, Plus digit, Plus ws, Plus digit, Plus ws,
          LazyStar Dot, Lit '':'', Grp (Plus digit), Plus ws,
          LazyStar Dot, Plus ws, Lit ''users:(('', Lit [CHR 0x22],
          Grp (Plus (NotIn [Chr CHR 0x22])), Lit [CHR 0x22], Lit '',pid='',
          Grp (Plus digit), Lit '','']"

definition simplePattern :: rx where
  "simplePattern =
     cat [Lit ''LISTEN'', Plus ws, Plus digit, Plus ws, Plus digit, Plus ws,
          LazyStar Dot, Lit '':'', Grp (Plus digit), Plus ws]"

definition netstatPattern :: rx where
  "netstatPattern =
     cat [Grp (Plus (In [Word])), Plus ws, Plus digit, Plus ws, Plus digit, Plus ws,
          LazyStar Dot, Lit '':'', Grp (Plus digit), Plus ws,
          LazyStar Dot, Plus ws, Grp (Plus digit), Lit ''/'', Grp (Plus (In [Word]))]"

text \<open>
  The construction of a port record that the three branches share: the protocol read
  from the line, the service detected, and the service fields set when the service is
  known.
\<close>

definition with_service :: "ServiceInfo \<Rightarrow> PortInfo \<Rightarrow> PortInfo" where
  "with_service serviceInfo portInfo =
     (if svc_Type serviceInfo \<noteq> ServiceTypeUnknown
      then portInfo \<lparr> ServiceType := svc_Type serviceInfo, ServiceName := svc_Name serviceInfo \<rparr>
      else portInfo)"

text \<open>
  The body of the loop of \<open>parseSSOutput\<close> for one line: the record appended to
  \<open>ports\<close>, or \<open>None\<close> where the body ends in \<open>continue\<close> without appending.
\<close>

definition ss_line :: "exec_env \<Rightarrow> int list \<Rightarrow> string \<Rightarrow> PortInfo option" where
  "ss_line exec portsToMonitor line =
     (if \<not> Contains line ''LISTEN'' then None
      else let matches = FindStringSubmatch ssPattern line in
        if length matches < 4 then
          (let simpleMatches = FindStringSubmatch simplePattern line in
           if 2 \<le> length simpleMatches then
             (case Atoi (simpleMatches ! 1) of
                (port, Some err) \<Rightarrow> None
              | (port, None) \<Rightarrow>
                  if \<not> shouldMonitorPort port portsToMonitor then None
                  else let protocol = (if Contains line ''udp'' then ''udp'' else ''tcp'');
                           serviceInfo = DetectService exec ''unknown'' port 0;
                           portInfo = \<lparr> Protocol = protocol, Port = port,
                                        Process = ''unknown'', PID = 0,
                                        ServiceType = [], ServiceName = [] \<rparr>
                       in Some (with_service serviceInfo portInfo))
           else None)
        else
          (case Atoi (matches ! 1) of
             (port, Some err) \<Rightarrow> None
           | (port, None) \<Rightarrow>
               if \<not> shouldMonitorPort port portsToMonitor then None
               else let processName = matches ! 2;
                        pid = fst (Atoi (matches ! 3));
                        protocol = (if Contains line ''udp'' then ''udp'' else ''tcp'');
                        serviceInfo = DetectService exec processName port pid;
                        portInfo = \<lparr> Protocol = protocol, Port = port,
                                     Process = processName, PID = pid,
                                     ServiceType = [], ServiceName = [] \<rparr>
                    in Some (with_service serviceInfo portInfo)))"

fun parse_lines ::
  "(string \<Rightarrow> PortInfo option) \<Rightarrow> string list \<Rightarrow> PortInfo list \<Rightarrow> PortInfo list" where
  "parse_lines body [] ports = ports"
| "parse_lines body (line # lines) ports =
     (case body line of
        None \<Rightarrow> parse_lines body lines ports
      | Some portInfo \<Rightarrow> parse_lines body lines (ports @ [portInfo]))"

definition parseSSOutput :: "exec_env \<Rightarrow> string \<Rightarrow> int list \<Rightarrow> PortInfo list" where
  "parseSSOutput exec output portsToMonitor =
     parse_lines (ss_line exec portsToMonitor) (Split output CHR 0x0A) []"

definition netstat_line :: "exec_env \<Rightarrow> int list \<Rightarrow> string \<Rightarrow> PortInfo option" where
  "netstat_line exec portsToMonitor line =
     (if \<not> Contains line ''LISTEN'' \<and> \<not> Contains line ''listening'' then None
      else let matches = FindStringSubmatch netstatPattern line in
        if length matches < 5 then None
        else
          (case Atoi (matches ! 2) of
             (port, Some err) \<Rightarrow> None
           | (port, None) \<Rightarrow>
               if \<not> shouldMonitorPort port portsToMonitor then None
               else let pid = fst (Atoi (matches ! 3));
                        processName = matches ! 4;
                        protocol = (if Contains line ''udp'' \<or> Contains line ''UDP''
                                    then ''udp'' else ''tcp'');
                        serviceInfo = DetectService exec processName port pid;
                        portInfo = \<lparr> Protocol = protocol, Port = port,
                                     Process = processName, PID = pid,
                                     ServiceType = [], ServiceName = [] \<rparr>
                    in Some (with_service serviceInfo portInfo)))"

definition parseNetstatOutput :: "exec_env \<Rightarrow> string \<Rightarrow> int list \<Rightarrow> PortInfo list" where
  "parseNetstatOutput exec output portsToMonitor =
     parse_lines (netstat_line exec portsToMonitor) (Split output CHR 0x0A) []"

text \<open>
  \<open>GetOpenPorts\<close>: \<open>ss -tulpn\<close> first, then the three \<open>netstat\<close> command lines in
  turn; the error of the last command when none runs.
\<close>

datatype exec_error = ExecError "string list"

definition getPortsWithNetstat :: "exec_env \<Rightarrow> int list \<Rightarrow> exec_error + PortInfo list" where
  "getPortsWithNetstat exec portsToMonitor =
     (case exec [''netstat'', ''-tulpn''] of
        Some output \<Rightarrow> Inr (parseNetstatOutput exec output portsToMonitor)
      | None \<Rightarrow>
     (case exec [''netstat'', ''-tuln''] of
        Some output \<Rightarrow> Inr (parseNetstatOutput exec output portsToMonitor)
      | None \<Rightarrow>
     (case exec [''netstat'', ''-an'', ''-p'', ''tcp''] of
        Some output \<Rightarrow> Inr (parseNetstatOutput exec output portsToMonitor)
      | None \<Rightarrow> Inl (ExecError [''netstat'', ''-an'', ''-p'', ''tcp'']))))"

definition GetOpenPorts :: "exec_env \<Rightarrow> int list \<Rightarrow> exec_error + PortInfo list" where
  "GetOpenPorts exec portsToMonitor =
     (case exec [''ss'', ''-tulpn''] of
        Some output \<Rightarrow> Inr (parseSSOutput exec output portsToMonitor)
      | None \<Rightarrow> getPortsWithNetstat exec portsToMonitor)"

text \<open>An example: the output of \<open>ss -tulpn\<close> on a host with three listeners.\<close>

definition example_ss_output :: string where
  \<open>example_ss_output =
     ''Netid State  Recv-Q Send-Q Local Address:Port Peer Address:Port Process\<newline>'' @
     ''tcp   LISTEN 0      511    0.0.0.0:80    0.0.0.0:*    users:(("nginx",pid=1234,fd=6))\<newline>'' @
     ''tcp   LISTEN 0      128    0.0.0.0:22    0.0.0.0:*\<newline>'' @
     ''tcp   LISTEN 0      70     127.0.0.1:3306 0.0.0.0:*   users:(("mysqld",pid=987,fd=21))\<newline>''\<close>

definition no_commands :: exec_env where
  "no_commands argv = None"

section \<open>Certificate checker (package network, ssl.go)\<close>

text \<open>
  An instant (\<open>time.Time\<close>) is modelled as a count of nanoseconds since the Unix
  epoch.  \<open>time.Until t\<close> is \<open>t.Sub(time.Now())\<close>: the difference as a
  \<open>Duration\<close>, or the smallest or largest \<open>Duration\<close> when the difference does not fit
  in 64 bits.
\<close>

type_synonym instant = int

definition minDuration :: duration where "minDuration = - (2 ^ 63)"
definition maxDuration :: duration where "maxDuration = 2 ^ 63 - 1"

definition Until :: "instant \<Rightarrow> instant \<Rightarrow> duration" where
  "Until t now =
     (let d = t - now in
      if d < minDuration then minDuration else if maxDuration < d then maxDuration else d)"

text \<open>
  \<open>Duration.Hours\<close> of the Go library:
  \<^verbatim>\<open>hour := d / Hour; nsec := d % Hour; return float64(hour) + float64(nsec)/(60*60*1e9)\<close>.
  Go's integer division truncates towards zero (\<open>sdiv\<close>, \<open>smod\<close>).
\<close>

definition Hours :: "duration \<Rightarrow> rat" where
  "Hours d =
     (let hour = d sdiv Hour; nsec = d smod Hour
      in fl (float64 hour + fl (float64 nsec / (60 * 60 * 1000000000))))"

record Certificate =
  NotBefore :: instant
  NotAfter :: instant
  IssuerOrganization :: "string list"
  IssuerCommonName :: string

record SSLInfo =
  Domain :: string
  ValidFrom :: instant
  ValidUntil :: instant
  DaysLeft :: int
  Issuer :: string

text \<open>
  What one call of \<open>checkSingleSSL\<close> meets: the outcome of dialling an address (an
  error, or a connection, which is a TLS connection with the peer's certificate chain
  or some other connection) and the instant at which \<open>time.Until\<close> reads the clock.
\<close>

datatype conn = TLSConn "Certificate list" | OtherConn

record probe =
  dial :: "string \<Rightarrow> string + conn"
  clock :: instant

datatype ssl_error =
    ConnectFailed string
  | NotTLS
  | NoCertificates
  | DomainError string ssl_error

definition checkSingleSSL :: "probe \<Rightarrow> string \<Rightarrow> ssl_error + SSLInfo" where
  "checkSingleSSL env domain =
     (let address = (if \<not> Contains domain '':'' then domain @ '':443'' else domain) in
      case dial env address of
        Inl err \<Rightarrow> Inl (ConnectFailed err)
      | Inr OtherConn \<Rightarrow> Inl NotTLS
      | Inr (TLSConn certs) \<Rightarrow>
          (case certs of
             [] \<Rightarrow> Inl NoCertificates
           | cert # _ \<Rightarrow>
               let daysLeft = int_of_float64 (fl (Hours (Until (NotAfter cert) (clock env)) / 24));
                   issuer = (case IssuerOrganization cert of
                               org # _ \<Rightarrow> org
                             | [] \<Rightarrow> if 0 < length (IssuerCommonName cert)
                                      then IssuerCommonName cert else [])
               in Inr \<lparr> Domain = domain, ValidFrom = NotBefore cert,
                         ValidUntil = NotAfter cert, DaysLeft = daysLeft, Issuer = issuer \<rparr>))"

definition clean_domain :: "string \<Rightarrow> string" where
  "clean_domain domain =
     (let domain = TrimPrefix domain ''https://'';
          domain = TrimPrefix domain ''http://'';
          domain = TrimSuffix domain ''/'';
          domain = TrimSpace domain
      in domain)"

text \<open>
  The loop of \<open>CheckSSL\<close>.  \<open>env i\<close> is what the \<open>i\<close>-th call of \<open>checkSingleSSL\<close>
  (counted from 0) meets; the loop carries the number of calls made so far and the
  slices \<open>results\<close> and \<open>errors\<close>.
\<close>

fun check_domains ::
  "(nat \<Rightarrow> probe) \<Rightarrow> nat \<Rightarrow> string list \<Rightarrow> SSLInfo list \<Rightarrow> ssl_error list
     \<Rightarrow> SSLInfo list \<times> ssl_error list" where
  "check_domains env i [] results errors = (results, errors)"
| "check_domains env i (d # ds) results errors =
     (let domain = clean_domain d in
      if domain = [] then check_domains env i ds results errors
      else case checkSingleSSL (env i) domain of
             Inl err \<Rightarrow>
               check_domains env (Suc i) ds results (errors @ [DomainError domain err])
           | Inr sslInfo \<Rightarrow>
               check_domains env (Suc i) ds (results @ [sslInfo]) errors)"

definition CheckSSL :: "(nat \<Rightarrow> probe) \<Rightarrow> string list \<Rightarrow> SSLInfo list \<times> ssl_error option" where
  "CheckSSL env domains =
     (if length domains = 0 then ([], None)
      else case check_domains env 0 domains [] [] of
             (results, errors) \<Rightarrow>
               (case errors of
                  first # _ \<Rightarrow> if length results = 0 then (results, Some first)
                               else (results, None)
                | [] \<Rightarrow> (results, None)))"

text \<open>
  The individual checks a call of \<open>CheckSSL\<close> makes, in order: the cleaned domains
  that are not empty, each with the outcome of its check.
\<close>

definition checked_domains :: "string list \<Rightarrow> string list" where
  "checked_domains domains = filter (\<lambda>d. d \<noteq> []) (map clean_domain domains)"

definition checks :: "(nat \<Rightarrow> probe) \<Rightarrow> string list \<Rightarrow> (string \<times> (ssl_error + SSLInfo)) list" where
  "checks env domains =
     map (\<lambda>(i, d). (d, checkSingleSSL (env i) d)) (enumerate 0 (checked_domains domains))"

definition failed :: "string \<times> (ssl_error + SSLInfo) \<Rightarrow> bool" where
  "failed c = isl (snd c)"

definition records :: "(string \<times> (ssl_error + SSLInfo)) list \<Rightarrow> SSLInfo list" where
  "records cs = map (\<lambda>c. projr (snd c)) (filter (\<lambda>c. \<not> failed c) cs)"

definition wrapped_errors :: "(string \<times> (ssl_error + SSLInfo)) list \<Rightarrow> ssl_error list" where
  "wrapped_errors cs = map (\<lambda>c. DomainError (fst c) (projl (snd c))) (filter failed cs)"


text \<open>
  An example: a certificate whose validity ended one hour before the check, and a
  probe that meets it on every address.
\<close>

definition expired_cert :: Certificate where
  "expired_cert = \<lparr> NotBefore = 1600000000 * Second, NotAfter = 1700000000 * Second,
     IssuerOrganization = [''Example CA''], IssuerCommonName = ''Example Root'' \<rparr>"

definition hour_late :: probe where
  "hour_late = \<lparr> dial = (\<lambda>address. Inr (TLSConn [expired_cert])),
     clock = 1700000000 * Second + Hour \<rparr>"

section \<open>Configuration store (package config)\<close>











section \<open>Command dispatcher (package commands)\<close>

text \<open>
  A value decoded from JSON into \<open>interface{}\<close>: nil, a bool, a float64 (a rational
  here), a string, a slice of values or a map from strings to values (an association
  list, read with \<open>map_of\<close>).
\<close>

datatype json =
    JNull
  | JBool bool
  | JNumber rat
  | JString string
  | JArray "json list"
  | JObject "(string \<times> json) list"












section \<open>Properties of the delivery client\<close>

lemma calculateBackoff_1: "calculateBackoff 1 = 2000000000" by code_simp
lemma calculateBackoff_2: "calculateBackoff 2 = 4000000000" by code_simp
lemma calculateBackoff_3: "calculateBackoff 3 = 6000000000" by code_simp
lemma calculateBackoff_4: "calculateBackoff 4 = 8000000000" by code_simp

lemma calculateBackoff_policy:
  assumes "0 < i" "i < 5"
  shows "calculateBackoff (int i) = policy_delay (Suc i)"
proof -
  from assms have "i = 1 \<or> i = 2 \<or> i = 3 \<or> i = 4" by arith
  then show ?thesis
    by (auto simp: calculateBackoff_1 calculateBackoff_2 calculateBackoff_3 calculateBackoff_4
        policy_delay_def Second_def Nanosecond_def)
qed

lemma send_loop_step:
  assumes "i < maxRetries" "retryable (env i)"
  shows "send_loop env i le tr =
         send_loop env (Suc i) (sendRequest (env i))
           (tr @ (if 0 < i then [Sleep (policy_delay (Suc i))] else []) @ [Request])"
proof -
  from assms(2) obtain err where e: "sendRequest (env i) = Some err" "\<not> is_auth_error err"
    by (auto simp: retryable_def split: option.splits)
  from assms(1) have "i < 5" by (simp add: maxRetries_def)
  then show ?thesis
    using assms(1) e
    by (subst send_loop.simps) (simp add: calculateBackoff_policy)
qed

lemma send_loop_stop:
  assumes "i < maxRetries" "\<not> retryable (env i)"
  shows "send_loop env i le tr =
         (sendRequest (env i), tr @ (if 0 < i then [Sleep (policy_delay (Suc i))] else []) @ [Request])"
proof -
  from assms(1) have "i < 5" by (simp add: maxRetries_def)
  then show ?thesis
    using assms
    by (subst send_loop.simps) (auto simp: retryable_def calculateBackoff_policy split: option.splits)
qed

lemma send_loop_end:
  "send_loop env maxRetries le tr = (Some (SendFailedAfter maxRetries le), tr)"
  by (subst send_loop.simps) simp

lemma send_loop_run:
  assumes "i \<le> maxRetries" "\<forall>j<i. retryable (env j)"
  shows "send_loop env 0 None [] =
         send_loop env i (if 0 < i then sendRequest (env (i - 1)) else None) (schedule 0 i)"
  using assms
proof (induction i)
  case 0
  then show ?case by simp
next
  case (Suc i)
  then have "send_loop env 0 None [] =
      send_loop env i (if 0 < i then sendRequest (env (i - 1)) else None) (schedule 0 i)"
    by simp
  also have "\<dots> = send_loop env (Suc i) (sendRequest (env i))
      (schedule 0 i @ (if 0 < i then [Sleep (policy_delay (Suc i))] else []) @ [Request])"
    using Suc.prems by (intro send_loop_step) auto
  finally show ?case by simp
qed

lemma attempts_schedule: "attempts (schedule 0 m) = m"
  by (induction m) (auto simp: attempts_def)

lemma schedule_full:
  "schedule 0 5 = [Request, Sleep (2 * Second), Request, Sleep (4 * Second), Request,
     Sleep (6 * Second), Request, Sleep (8 * Second), Request]"
  by (simp add: eval_nat_numeral policy_delay_def Second_def Nanosecond_def)

text \<open>
  Claim C2.  Whatever the attempts meet, \<open>Send\<close> makes at most 5 attempts, and its
  trace is the schedule of the policy: attempt \<open>k\<close> (for \<open>2 \<le> k \<le> 5\<close>) comes right
  after a sleep of \<open>min(60 s, 1 s * 2.0 * (k-1))\<close>, that is 2 s, 4 s, 6 s and 8 s.
  When all five attempts fail with a retryable error, the result is the
  exhausted-retries error wrapping the error of the fifth attempt.
\<close>

theorem send_retry_policy:
  "attempts (snd (Send env)) \<le> 5 \<and>
   (\<exists>m. 1 \<le> m \<and> m \<le> 5 \<and> snd (Send env) = schedule 0 m) \<and>
   (\<forall>k. policy_delay k = min (60 * Second) (1 * Second * 2 * (int k - 1))) \<and>
   ((\<forall>i<5. retryable (env i)) \<longrightarrow>
      Send env = (Some (SendFailedAfter 5 (sendRequest (env 4))),
        [Request, Sleep (2 * Second), Request, Sleep (4 * Second), Request,
         Sleep (6 * Second), Request, Sleep (8 * Second), Request]))"
proof -
  have all: "Send env = (Some (SendFailedAfter 5 (sendRequest (env 4))), schedule 0 5)"
    if "\<forall>i<5. retryable (env i)"
    using send_loop_run [of 5 env] that
    by (simp add: Send_def maxRetries_def send_loop_end [unfolded maxRetries_def])
  have ex: "\<exists>m. 1 \<le> m \<and> m \<le> 5 \<and> snd (Send env) = schedule 0 m"
  proof (cases "\<forall>i<5. retryable (env i)")
    case True
    then show ?thesis using all by auto
  next
    case False
    define i where "i = (LEAST i. i < 5 \<and> \<not> retryable (env i))"
    from False have "\<exists>i. i < 5 \<and> \<not> retryable (env i)" by blast
    then have i: "i < 5" "\<not> retryable (env i)"
      unfolding i_def by (metis (mono_tags, lifting) LeastI_ex)+
    have before: "\<forall>j<i. retryable (env j)"
    proof (intro allI impI)
      fix j assume "j < i"
      then have "\<not> (j < 5 \<and> \<not> retryable (env j))"
        unfolding i_def by (rule not_less_Least)
      with \<open>j < i\<close> i(1) show "retryable (env j)" by simp
    qed
    have "Send env = (sendRequest (env i), schedule 0 (Suc i))"
      using send_loop_run [of i env] before i
      by (simp add: Send_def maxRetries_def send_loop_stop)
    with i(1) show ?thesis by (intro exI [of _ "Suc i"]) simp
  qed
  from ex obtain m where m: "m \<le> 5" "snd (Send env) = schedule 0 m" by blast
  then have "attempts (snd (Send env)) \<le> 5" by (simp add: attempts_schedule)
  with ex all show ?thesis by (simp add: schedule_full policy_delay_def)
qed

theorem send_retry_policy_witness:
  "Send (\<lambda>i. NoResponse) = (Some (SendFailedAfter 5 (Some RequestFailed)),
        [Request, Sleep 2000000000, Request, Sleep 4000000000, Request,
         Sleep 6000000000, Request, Sleep 8000000000, Request])"
  using send_retry_policy [of "\<lambda>i. NoResponse"]
  by (simp add: retryable_def Second_def Nanosecond_def)

text \<open>
  Claim C3.  When attempt \<open>i+1\<close> is made (the attempts before it failed with
  retryable errors) and receives status 401 or 403, \<open>Send\<close> returns that
  \<open>HTTPError\<close> itself, not the exhausted-retries error, and the trace ends with that
  attempt: \<open>i+1\<close> attempts in total, so exactly one when the first attempt is rejected.
\<close>

theorem send_auth_stops:
  assumes "i < 5" "\<forall>j<i. retryable (env j)"
    and "env i = Response code status body" "code = 401 \<or> code = 403"
  shows "Send env = (Some (HTTPError code status body), schedule 0 (Suc i)) \<and>
         attempts (snd (Send env)) = Suc i \<and>
         (\<forall>n e. fst (Send env) \<noteq> Some (SendFailedAfter n e))"
proof -
  have "\<not> retryable (env i)" using assms(3,4) by (auto simp: retryable_def)
  then have "Send env = (sendRequest (env i), schedule 0 (Suc i))"
    using send_loop_run [of i env] assms(1,2)
    by (simp add: Send_def maxRetries_def send_loop_stop)
  moreover have "sendRequest (env i) = Some (HTTPError code status body)"
    using assms(3,4) by auto
  ultimately show ?thesis by (simp add: attempts_schedule del: schedule.simps)
qed

theorem send_auth_stops_witness:
  "Send (\<lambda>i. Response 401 ''401 Unauthorized'' ''bad key'') =
     (Some (HTTPError 401 ''401 Unauthorized'' ''bad key''), [Request]) \<and>
   attempts (snd (Send (\<lambda>i. Response 401 ''401 Unauthorized'' ''bad key''))) = 1"
  using send_auth_stops [of 0 "\<lambda>i. Response 401 ''401 Unauthorized'' ''bad key''" 401
      "''401 Unauthorized''" "''bad key''"]
  by (simp add: attempts_def)

text \<open>
  Claim C10.  \<open>NewClient\<close> panics with an index out of range on the empty base URL.
  On a non-empty URL it returns a client whose base URL is the input followed by one
  \<open>/\<close> when the input did not end in \<open>/\<close>, and the input itself when it did.
\<close>

theorem NewClient_base_url:
  "NewClient [] k = Inl (IndexOutOfRange (- 1) 0) \<and>
   (u \<noteq> [] \<longrightarrow> (\<exists>c. NewClient u k = Inr c \<and> apiKey c = k \<and>
      (if last u = CHR ''/'' then url c = u else url c = u @ ''/'')))"
  by (simp add: NewClient_def)

theorem NewClient_base_url_witness:
  "(\<exists>c. NewClient ''https://x'' ''k'' = Inr c \<and> url c = ''https://x/'') \<and>
   (\<exists>c. NewClient ''https://x/'' ''k'' = Inr c \<and> url c = ''https://x/'')"
  using NewClient_base_url [of "''k''" "''https://x''"] NewClient_base_url [of "''k''" "''https://x/''"]
  by auto
section \<open>Properties of the log sampler and of redaction\<close>

lemma Contains_append_left: "Contains s (a @ b) \<Longrightarrow> Contains s a"
  by (induction s) (auto dest: append_prefixD)

lemma Contains_warning: "Contains s ''warning'' \<Longrightarrow> Contains s ''warn''"
  using Contains_append_left [of s "''warn''" "''ing''"] by simp

lemma Contains_information: "Contains s ''information'' \<Longrightarrow> Contains s ''info''"
  using Contains_append_left [of s "''info''" "''rmation''"] by simp

text \<open>
  Claim C7, as the code has it.  \<open>detectLogLevel\<close> is the first-match classification
  of the lower-cased content over the families critical/panic/fatal, then
  error/err/exception, then warn, then info, and is empty when no family matches.  The
  keyword \<open>err\<close> belongs to the second family: the source tests for it by name.
\<close>

theorem detectLogLevel_families:
  "detectLogLevel content = classify scanned_families content"
  using Contains_warning [of "ToLower content"] Contains_information [of "ToLower content"]
  by (auto simp: detectLogLevel_def scanned_families_def Let_def)

theorem detectLogLevel_families_witness:
  "detectLogLevel ''WARNING: disk almost full'' = ''warn''"
proof -
  have "classify scanned_families ''WARNING: disk almost full'' = ''warn''"
    by code_simp
  with detectLogLevel_families [of "''WARNING: disk almost full''"] show ?thesis
    by (simp only:)
qed

text \<open>
  With the families as the claim lists them (error/exception, without \<open>err\<close>) the
  content \<open>stderr closed\<close> matches no family and would have no severity; the code
  classifies it as \<open>error\<close>.
\<close>

theorem detectLogLevel_err_counterexample:
  "detectLogLevel ''stderr closed'' = ''error'' \<and>
   classify claimed_families ''stderr closed'' = [] \<and>
   detectLogLevel ''stderr closed'' \<noteq> classify claimed_families ''stderr closed''"
  by code_simp

text \<open>
  Claim C1 does not hold of the code.  The log line \<open>password="hunter2" login ok\<close>
  has the shape \<open>password=X\<close> with the secret in quotes.  The first pattern wants a
  value that starts with a character other than a quote, the second wants the key in
  quotes, so neither matches: the secret stays in the output and no \<open>***REDACTED***\<close>
  marker is written; only the bare word \<open>password\<close> is replaced.
\<close>

theorem sanitize_quoted_password:
  \<open>sanitize ''password="hunter2" login ok'' = ''***="hunter2" login ok'' \<and>
   Contains ''***="hunter2" login ok'' ''hunter2'' \<and>
   \<not> Contains ''***="hunter2" login ok'' ''***REDACTED***''\<close>
  by code_simp

text \<open>The same line without the quotes is redacted.\<close>

lemma sanitize_bare_password:
  \<open>sanitize ''password=hunter2 login ok'' = ''***=***REDACTED*** login ok''\<close>
  by code_simp

lemma read_paths_entries:
  "read_paths fs m paths entries =
     entries @ concat (map (\<lambda>p. case (if p = [] then Inr None else readLogFile fs p m) of
                                   Inr (Some e) \<Rightarrow> [e] | _ \<Rightarrow> []) paths)"
  by (induction paths arbitrary: entries) (auto split: sum.splits option.splits)

lemma readLogFile_entry:
  assumes "readLogFile fs p m = Inr (Some e)"
  shows "Path e = p \<and> 0 < Lines e \<and> (\<exists>f. fs p = Inr f)"
  using assms
  by (auto simp: readLogFile_def Let_def split: sum.splits option.splits if_splits prod.splits)

text \<open>
  Claim C9.  \<open>ReadAndSanitize\<close> returns a nil error for every file system, list of
  paths and \<open>maxLines\<close>.  Each path contributes the entry \<open>readLogFile\<close> returns for
  it, and nothing when it is empty, when \<open>readLogFile\<close> fails or when it retains no
  line; so every entry returned comes from a non-empty path of the list that could be
  opened, and counts at least one line.
\<close>

theorem ReadAndSanitize_no_error:
  "snd (ReadAndSanitize fs paths maxLines) = None \<and>
   fst (ReadAndSanitize fs paths maxLines) =
     concat (map (\<lambda>p. case (if p = [] then Inr None
                              else readLogFile fs p (nat (if maxLines \<le> 0 then 100 else maxLines))) of
                         Inr (Some e) \<Rightarrow> [e] | _ \<Rightarrow> []) paths) \<and>
   (\<forall>e \<in> set (fst (ReadAndSanitize fs paths maxLines)).
      Path e \<noteq> [] \<and> Path e \<in> set paths \<and> (\<exists>f. fs (Path e) = Inr f) \<and> 0 < Lines e)"
proof -
  let ?m = "nat (if maxLines \<le> 0 then 100 else maxLines)"
  let ?c = "\<lambda>p. case (if p = [] then Inr None else readLogFile fs p ?m) of
                   Inr (Some e) \<Rightarrow> [e] | _ \<Rightarrow> []"
  have entries: "fst (ReadAndSanitize fs paths maxLines) = concat (map ?c paths)"
    by (cases paths) (simp_all add: ReadAndSanitize_def read_paths_entries Let_def)
  have "Path e \<noteq> [] \<and> Path e \<in> set paths \<and> (\<exists>f. fs (Path e) = Inr f) \<and> 0 < Lines e"
    if "e \<in> set (concat (map ?c paths))" for e
  proof -
    from that obtain p where p: "p \<in> set paths" "e \<in> set (?c p)" by auto
    then have "p \<noteq> []" by (auto split: if_splits)
    with p(2) have "readLogFile fs p ?m = Inr (Some e)"
      by (auto split: sum.splits option.splits)
    from readLogFile_entry [OF this] p(1) \<open>p \<noteq> []\<close> show ?thesis by auto
  qed
  moreover have "snd (ReadAndSanitize fs paths maxLines) = None"
    by (simp add: ReadAndSanitize_def Let_def)
  ultimately show ?thesis using entries by simp
qed

lemma example_run:
  "ReadAndSanitize example_fs
     [''/var/log/missing.log'', [], ''/var/log/empty.log'', ''/var/log/app.log''] 0 =
     ([\<lparr> Path = ''/var/log/app.log'', Message = ''started\<newline>all good'', Lines = 2,
         Level = [] \<rparr>], None)"
  by code_simp

theorem ReadAndSanitize_no_error_witness:
  "snd (ReadAndSanitize example_fs
     [''/var/log/missing.log'', [], ''/var/log/empty.log'', ''/var/log/app.log''] 0) = None \<and>
   length (fst (ReadAndSanitize example_fs
     [''/var/log/missing.log'', [], ''/var/log/empty.log'', ''/var/log/app.log''] 0)) = 1 \<and>
   (\<exists>f. example_fs ''/var/log/app.log'' = Inr f)"
proof -
  let ?r = "ReadAndSanitize example_fs
     [''/var/log/missing.log'', [], ''/var/log/empty.log'', ''/var/log/app.log''] 0"
  from ReadAndSanitize_no_error [of example_fs
      "[''/var/log/missing.log'', [], ''/var/log/empty.log'', ''/var/log/app.log'']" 0]
  have none: "snd ?r = None"
    and each: "\<forall>e \<in> set (fst ?r). Path e \<noteq> [] \<and>
        Path e \<in> set [''/var/log/missing.log'', [], ''/var/log/empty.log'', ''/var/log/app.log''] \<and>
        (\<exists>f. example_fs (Path e) = Inr f) \<and> 0 < Lines e"
    by blast+
  from each have "\<exists>f. example_fs ''/var/log/app.log'' = Inr f"
    unfolding example_run by simp
  with none show ?thesis
    unfolding example_run by simp
qed
section \<open>Properties of the discovery parser\<close>

lemma with_service_Port [simp]: "Port (with_service si p) = Port p"
  by (simp add: with_service_def)

lemma shouldMonitorPort_nil: "shouldMonitorPort port [] = True"
  by simp

lemma shouldMonitorPort_iff:
  "shouldMonitorPort port S \<longleftrightarrow> S = [] \<or> port \<in> set S"
  by (auto simp: list_ex_iff)

declare shouldMonitorPort.simps [simp del]

lemma guarded_record:
  assumes "Port r = port"
  shows "(if \<not> shouldMonitorPort port S then None else Some r) =
         (case (if \<not> shouldMonitorPort port [] then None else Some r) of
            None \<Rightarrow> None
          | Some p \<Rightarrow> if shouldMonitorPort (Port p) S then Some p else None)"
  using assms by (simp add: shouldMonitorPort_nil)

lemma guarded_atoi:
  assumes "\<And>port. Port (r port) = port"
  shows "(case a of (port, Some err) \<Rightarrow> None
          | (port, None) \<Rightarrow> if \<not> shouldMonitorPort port S then None else Some (r port)) =
         (case (case a of (port, Some err) \<Rightarrow> None
                | (port, None) \<Rightarrow> if \<not> shouldMonitorPort port [] then None else Some (r port)) of
            None \<Rightarrow> None
          | Some p \<Rightarrow> if shouldMonitorPort (Port p) S then Some p else None)"
proof (cases a)
  case (Pair port e)
  show ?thesis
  proof (cases e)
    case None
    with Pair show ?thesis using guarded_record [OF assms, of port S] by simp
  next
    case (Some err)
    with Pair show ?thesis by simp
  qed
qed

lemma ss_line_filter:
  "ss_line exec S line =
     (case ss_line exec [] line of
        None \<Rightarrow> None
      | Some p \<Rightarrow> if shouldMonitorPort (Port p) S then Some p else None)"
proof (cases "Contains line ''LISTEN''")
  case False
  then show ?thesis by (simp add: ss_line_def)
next
  case listen: True
  show ?thesis
  proof (cases "length (FindStringSubmatch ssPattern line) < 4")
    case short: True
    show ?thesis
    proof (cases "2 \<le> length (FindStringSubmatch simplePattern line)")
      case True
      with listen short show ?thesis
        unfolding ss_line_def Let_def
        by (simp only: if_True if_False not_True_eq_False not_False_eq_True)
           (rule guarded_atoi, simp)
    next
      case False
      with listen short show ?thesis by (simp add: ss_line_def Let_def)
    qed
  next
    case False
    with listen show ?thesis
      unfolding ss_line_def Let_def
      by (simp only: if_True if_False not_True_eq_False not_False_eq_True)
         (rule guarded_atoi, simp)
  qed
qed

lemma netstat_line_filter:
  "netstat_line exec S line =
     (case netstat_line exec [] line of
        None \<Rightarrow> None
      | Some p \<Rightarrow> if shouldMonitorPort (Port p) S then Some p else None)"
proof (cases "\<not> Contains line ''LISTEN'' \<and> \<not> Contains line ''listening''")
  case True
  then show ?thesis by (simp add: netstat_line_def)
next
  case listen: False
  show ?thesis
  proof (cases "length (FindStringSubmatch netstatPattern line) < 5")
    case True
    with listen show ?thesis by (simp add: netstat_line_def Let_def)
  next
    case False
    with listen show ?thesis
      unfolding netstat_line_def Let_def
      by (simp only: if_True if_False not_True_eq_False not_False_eq_True)
         (rule guarded_atoi, simp)
  qed
qed

lemma parse_lines_acc:
  "parse_lines body lines ports = ports @ parse_lines body lines []"
proof (induction lines arbitrary: ports)
  case Nil
  then show ?case by simp
next
  case (Cons line lines)
  show ?case
  proof (cases "body line")
    case None
    with Cons [of ports] show ?thesis by simp
  next
    case (Some p)
    have "parse_lines body (line # lines) ports = (ports @ [p]) @ parse_lines body lines []"
      using Some Cons [of "ports @ [p]"] by simp
    moreover have "parse_lines body (line # lines) [] = [p] @ parse_lines body lines []"
      using Some Cons [of "[p]"] by simp
    ultimately show ?thesis by simp
  qed
qed

lemma parse_lines_filter:
  assumes "\<And>line. body line =
     (case body0 line of None \<Rightarrow> None | Some p \<Rightarrow> if keep p then Some p else None)"
  shows "parse_lines body lines [] = filter keep (parse_lines body0 lines [])"
proof (induction lines)
  case Nil
  then show ?case by simp
next
  case (Cons line lines)
  show ?case
  proof (cases "body0 line")
    case None
    with Cons assms [of line] show ?thesis by simp
  next
    case (Some p)
    have b0: "parse_lines body0 (line # lines) [] = [p] @ parse_lines body0 lines []"
      using Some parse_lines_acc [of body0 lines "[p]"] by simp
    show ?thesis
    proof (cases "keep p")
      case True
      then have "body line = Some p" using assms [of line] Some by simp
      then have "parse_lines body (line # lines) [] = [p] @ parse_lines body lines []"
        using parse_lines_acc [of body lines "[p]"] by simp
      with b0 True Cons show ?thesis by simp
    next
      case False
      then have "body line = None" using assms [of line] Some by simp
      with b0 False Cons show ?thesis by simp
    qed
  qed
qed

text \<open>
  Claim C5.  The ports discovered in an output are the records parsed with the empty
  monitor list, for which \<open>shouldMonitorPort\<close> accepts every port.  With a non-empty
  list \<open>S\<close> the parsed records are exactly the discovered records whose port is a
  member of \<open>S\<close>, in the same order; this holds of the parser of \<open>ss\<close> and of the
  parser of \<open>netstat\<close>.
\<close>

theorem ports_to_monitor_filter:
  "(S \<noteq> [] \<longrightarrow>
      parseSSOutput exec output S =
        filter (\<lambda>p. Port p \<in> set S) (parseSSOutput exec output []) \<and>
      parseNetstatOutput exec output S =
        filter (\<lambda>p. Port p \<in> set S) (parseNetstatOutput exec output [])) \<and>
   (\<forall>port. shouldMonitorPort port []) \<and>
   (\<forall>port. S \<noteq> [] \<longrightarrow> (shouldMonitorPort port S \<longleftrightarrow> port \<in> set S))"
proof -
  have "parseSSOutput exec output S =
        filter (\<lambda>p. shouldMonitorPort (Port p) S) (parseSSOutput exec output [])"
    unfolding parseSSOutput_def by (rule parse_lines_filter) (rule ss_line_filter)
  moreover have "parseNetstatOutput exec output S =
        filter (\<lambda>p. shouldMonitorPort (Port p) S) (parseNetstatOutput exec output [])"
    unfolding parseNetstatOutput_def by (rule parse_lines_filter) (rule netstat_line_filter)
  ultimately show ?thesis
    by (simp add: shouldMonitorPort_iff)
qed


lemma example_ports:
  "map Port (parseSSOutput no_commands example_ss_output []) = [80, 22, 3306]"
  by code_simp

theorem ports_to_monitor_filter_witness:
  "map Port (parseSSOutput no_commands example_ss_output [22, 3306]) = [22, 3306]"
proof -
  have "([22, 3306] :: int list) \<noteq> []" by simp
  with ports_to_monitor_filter [of "[22, 3306]" no_commands example_ss_output]
  have "parseSSOutput no_commands example_ss_output [22, 3306] =
        filter (\<lambda>p. Port p \<in> set [22, 3306]) (parseSSOutput no_commands example_ss_output [])"
    by blast
  then have "map Port (parseSSOutput no_commands example_ss_output [22, 3306]) =
        filter (\<lambda>n. n \<in> set [22, 3306]) (map Port (parseSSOutput no_commands example_ss_output []))"
    by (simp add: filter_map comp_def)
  then show ?thesis unfolding example_ports by simp
qed
section \<open>Properties of the certificate checker\<close>

lemma check_domains_eq:
  "check_domains env i ds rs es =
     (let cs = map (\<lambda>(j, d). (d, checkSingleSSL (env j) d)) (enumerate i (checked_domains ds))
      in (rs @ records cs, es @ wrapped_errors cs))"
proof (induction ds arbitrary: i rs es)
  case Nil
  then show ?case
    by (simp add: checked_domains_def records_def wrapped_errors_def)
next
  case (Cons d ds)
  show ?case
  proof (cases "clean_domain d = []")
    case True
    with Cons show ?thesis by (simp add: checked_domains_def)
  next
    case False
    with Cons show ?thesis
      by (cases "checkSingleSSL (env i) (clean_domain d)")
         (simp_all add: checked_domains_def records_def wrapped_errors_def failed_def Let_def)
  qed
qed

lemma CheckSSL_eq:
  "CheckSSL env domains =
     (records (checks env domains),
      if records (checks env domains) = [] \<and> wrapped_errors (checks env domains) \<noteq> []
      then Some (hd (wrapped_errors (checks env domains))) else None)"
proof (cases "domains = []")
  case True
  then show ?thesis
    by (simp add: CheckSSL_def checks_def checked_domains_def records_def wrapped_errors_def)
next
  case False
  then show ?thesis
    by (simp add: CheckSSL_def check_domains_eq checks_def Let_def split: list.splits)
qed

lemma records_empty_iff: "records cs = [] \<longleftrightarrow> (\<forall>c \<in> set cs. failed c)"
  by (auto simp: records_def filter_empty_conv)

lemma wrapped_errors_all_failed:
  assumes "cs \<noteq> []" "\<forall>c \<in> set cs. failed c"
  shows "wrapped_errors cs \<noteq> [] \<and>
         hd (wrapped_errors cs) = DomainError (fst (hd cs)) (projl (snd (hd cs)))"
  using assms by (cases cs) (simp_all add: wrapped_errors_def)

text \<open>
  Claim C4.  Over the individual checks that \<open>CheckSSL\<close> makes (one for each domain
  that is not empty after cleaning): when there is a check and every check fails, the
  result is the empty sequence with the error of the first check, wrapped with its
  domain; when some check succeeds, the result is the records of the successful
  checks, in order, with a nil error; so when exactly one check succeeds there is
  exactly one record and no error.  Without any check the result is empty with a nil
  error.
\<close>

theorem CheckSSL_partial_results:
  "((checks env domains \<noteq> [] \<and> (\<forall>c \<in> set (checks env domains). failed c)) \<longrightarrow>
      CheckSSL env domains =
        ([], Some (DomainError (fst (hd (checks env domains)))
                     (projl (snd (hd (checks env domains))))))) \<and>
   ((\<exists>c \<in> set (checks env domains). \<not> failed c) \<longrightarrow>
      CheckSSL env domains = (records (checks env domains), None)) \<and>
   (length (filter (\<lambda>c. \<not> failed c) (checks env domains)) = 1 \<longrightarrow>
      length (fst (CheckSSL env domains)) = 1 \<and> snd (CheckSSL env domains) = None) \<and>
   (checks env domains = [] \<longrightarrow> CheckSSL env domains = ([], None))"
proof (intro conjI impI)
  assume a: "checks env domains \<noteq> [] \<and> (\<forall>c \<in> set (checks env domains). failed c)"
  then have "records (checks env domains) = []" by (simp add: records_empty_iff)
  with wrapped_errors_all_failed [of "checks env domains"] a
  show "CheckSSL env domains =
        ([], Some (DomainError (fst (hd (checks env domains)))
                     (projl (snd (hd (checks env domains))))))"
    by (simp add: CheckSSL_eq)
next
  assume "\<exists>c \<in> set (checks env domains). \<not> failed c"
  then have "records (checks env domains) \<noteq> []" by (simp add: records_empty_iff)
  then show "CheckSSL env domains = (records (checks env domains), None)"
    by (simp add: CheckSSL_eq)
next
  assume one: "length (filter (\<lambda>c. \<not> failed c) (checks env domains)) = 1"
  then have len: "length (records (checks env domains)) = 1" by (simp add: records_def)
  then show "length (fst (CheckSSL env domains)) = 1" by (simp add: CheckSSL_eq)
  from len have "records (checks env domains) \<noteq> []" by auto
  then show "snd (CheckSSL env domains) = None" by (simp add: CheckSSL_eq)
next
  assume "checks env domains = []"
  then show "CheckSSL env domains = ([], None)"
    by (simp add: CheckSSL_eq records_def wrapped_errors_def)
qed

text \<open>Four domains, one of them blank; of the three checks only the second succeeds.\<close>

lemma one_of_three:
  "length (filter (\<lambda>c. \<not> failed c)
     (checks (\<lambda>i. if i = 1 then hour_late else \<lparr> dial = (\<lambda>a. Inl ''i/o timeout''), clock = 0 \<rparr>)
        [''https://a.example/'', '' '', ''b.example'', ''c.example:8443''])) = 1"
  by code_simp

theorem CheckSSL_partial_results_witness:
  "length (fst (CheckSSL (\<lambda>i. if i = 1 then hour_late
                               else \<lparr> dial = (\<lambda>a. Inl ''i/o timeout''), clock = 0 \<rparr>)
        [''https://a.example/'', '' '', ''b.example'', ''c.example:8443''])) = 1 \<and>
   snd (CheckSSL (\<lambda>i. if i = 1 then hour_late
                        else \<lparr> dial = (\<lambda>a. Inl ''i/o timeout''), clock = 0 \<rparr>)
        [''https://a.example/'', '' '', ''b.example'', ''c.example:8443'']) = None"
  using CheckSSL_partial_results [of
      "\<lambda>i. if i = 1 then hour_late else \<lparr> dial = (\<lambda>a. Inl ''i/o timeout''), clock = 0 \<rparr>"
      "[''https://a.example/'', '' '', ''b.example'', ''c.example:8443'']"]
    one_of_three
  by blast

section \<open>Properties of the command dispatcher\<close>





end
